theory Spec2Isabelle
  imports Complex_Main "HOL-Library.Char_ord" "HOL-Library.List_Lexorder"
    "HOL-Library.Product_Lexorder" "HOL-Library.Sublist"
begin

section \<open>The streaming table\<close>

text \<open>
  The dashboard reads \<^verbatim>\<open>spotify.csv\<close> into a dataframe. A dataframe is modelled
  as the list of its rows, in file order; a row is a record of the columns the scripts
  read. A categorical cell is \<open>Some s\<close>, or \<open>None\<close> when the cell is empty in the
  file (the dataframe library's missing marker). The two count columns are integers;
  the library's 64-bit representation of them is not modelled.
\<close>

record row =
  region :: "string option"
  genre :: "string option"
  subscription_type :: "string option"
  month :: "string option"
  artist_name :: "string option"
  country :: "string option"
  streams :: int
  active_listeners :: int

type_synonym table = "row list"

subsection \<open>The global filter\<close>

text \<open>
  \<^verbatim>\<open>
  filtered_df = df[
      (df["region"].isin(region)) &
      (df["genre"].isin(genre)) &
      (df["subscription_type"].isin(subscription)) &
      (df["month"].isin(month))
  ]
  \<close>
  The four selections are the lists the multiselect widgets return. \<open>isin\<close> is
  membership in the selected list (a missing cell is a member exactly when the missing
  marker was selected), \<open>&\<close> is the row-wise conjunction, and indexing by the mask
  keeps the rows whose mask is true, in order.
\<close>

definition isin :: "'a \<Rightarrow> 'a list \<Rightarrow> bool" where
  "isin v allowed = (v \<in> set allowed)"

definition row_mask :: "string option list \<Rightarrow> string option list \<Rightarrow> string option list \<Rightarrow>
    string option list \<Rightarrow> row \<Rightarrow> bool" where
  "row_mask region_sel genre_sel subscription_sel month_sel r =
     (isin (region r) region_sel \<and> isin (genre r) genre_sel \<and>
      isin (subscription_type r) subscription_sel \<and> isin (month r) month_sel)"

definition filtered_df :: "table \<Rightarrow> string option list \<Rightarrow> string option list \<Rightarrow>
    string option list \<Rightarrow> string option list \<Rightarrow> table" where
  "filtered_df df region_sel genre_sel subscription_sel month_sel =
     filter (row_mask region_sel genre_sel subscription_sel month_sel) df"

text \<open>\<open>df[col].unique()\<close>: the distinct values of a column, in order of first appearance.\<close>

definition unique :: "(row \<Rightarrow> 'a) \<Rightarrow> table \<Rightarrow> 'a list" where
  "unique col df = rev (remdups (rev (map col df)))"

subsection \<open>Errors and floating-point results\<close>

text \<open>
  The exceptions the modelled statements can raise, as values. \<open>NoDataError\<close> is the
  error the specification asks for; no statement of the scripts raises it.
\<close>

datatype error = ValueError | KeyError | TypeError | NoDataError

text \<open>
  A float64 result is a finite number or one of the three special values. Finite
  values are exact reals: rounding is not modelled, the special values are.
\<close>

datatype float64 = Fin real | NaN | PInf | NInf

text \<open>
  \<open>a / b\<close> on two integer sums of the dataframe library is true division in float64:
  a zero divisor raises nothing and yields NaN or an infinity.
\<close>

definition true_divide :: "int \<Rightarrow> int \<Rightarrow> float64" where
  "true_divide a b =
     (if b = 0 then (if a = 0 then NaN else if 0 < a then PInf else NInf)
      else Fin (real_of_int a / real_of_int b))"

text \<open>\<open>x * 100\<close>: multiplication of a float64 by a positive constant.\<close>

fun mul64 :: "float64 \<Rightarrow> real \<Rightarrow> float64" where
  "mul64 (Fin v) c = Fin (v * c)"
| "mul64 NaN c = NaN"
| "mul64 PInf c = (if 0 < c then PInf else if c < 0 then NInf else NaN)"
| "mul64 NInf c = (if 0 < c then NInf else if c < 0 then PInf else NaN)"

text \<open>\<open>round(x, 1)\<close>: one decimal, halves to the even neighbour; special values pass.\<close>

definition rint :: "real \<Rightarrow> int" where
  "rint x =
     (let f = \<lfloor>x\<rfloor>; d = x - real_of_int f
      in if d < 1 / 2 then f else if 1 / 2 < d then f + 1
         else if even f then f else f + 1)"

fun round1 :: "float64 \<Rightarrow> float64" where
  "round1 (Fin v) = Fin (real_of_int (rint (v * 10)) / 10)"
| "round1 NaN = NaN"
| "round1 PInf = PInf"
| "round1 NInf = NInf"

text \<open>\<open>x >= q\<close> for a number and a float64 threshold: false against NaN.\<close>

fun ge64 :: "real \<Rightarrow> float64 \<Rightarrow> bool" where
  "ge64 x (Fin q) = (q \<le> x)"
| "ge64 x NaN = False"
| "ge64 x PInf = False"
| "ge64 x NInf = True"

subsection \<open>Grouped sums\<close>

text \<open>
  \<open>df.groupby(keys)[col].sum()\<close>: one entry per distinct key combination present, in
  ascending key order, holding the sum of \<open>col\<close> over the rows of that combination.
  A row with a missing cell in a key column belongs to no group. The key of a row is
  given as a function to \<open>Some\<close> combination, or \<open>None\<close> for such a row.
\<close>

definition groupby_sum ::
    "('r \<Rightarrow> 'k::linorder option) \<Rightarrow> ('r \<Rightarrow> 'v::comm_monoid_add) \<Rightarrow> 'r list \<Rightarrow> ('k \<times> 'v) list" where
  "groupby_sum key col df =
     map (\<lambda>k. (k, sum_list (map col (filter (\<lambda>r. key r = Some k) df))))
       (sort (remdups (List.map_filter key df)))"

text \<open>The key of \<open>groupby([c1, c2])\<close>.\<close>

definition key2 :: "('r \<Rightarrow> 'a option) \<Rightarrow> ('r \<Rightarrow> 'b option) \<Rightarrow> 'r \<Rightarrow> ('a \<times> 'b) option" where
  "key2 c1 c2 r =
     (case c1 r of None \<Rightarrow> None
      | Some a \<Rightarrow> (case c2 r of None \<Rightarrow> None | Some b \<Rightarrow> Some (a, b)))"

text \<open>
  \<open>.idxmax()\<close>: the label of the first entry holding the maximum; on an empty series the
  library raises ValueError.
\<close>

fun first_max :: "'k \<times> int \<Rightarrow> ('k \<times> int) list \<Rightarrow> 'k \<times> int" where
  "first_max best [] = best"
| "first_max best (kv # kvs) = first_max (if snd best < snd kv then kv else best) kvs"

fun idxmax :: "('k \<times> int) list \<Rightarrow> error + 'k" where
  "idxmax [] = Inl ValueError"
| "idxmax (kv # kvs) = Inr (fst (first_max kv kvs))"

subsection \<open>The KPI cards of \<^verbatim>\<open>app.py\<close>\<close>

text \<open>
  \<^verbatim>\<open>
  total_streams = filtered_df["streams"].sum()
  active_users = filtered_df["active_listeners"].sum()
  top_artist = (
      filtered_df.groupby("artist_name")["streams"]
      .sum().idxmax()
      if not filtered_df.empty else "N/A"
  )
  premium_share = (
      filtered_df[filtered_df["subscription_type"] == "Premium"]["active_listeners"].sum()
      / active_users * 100 if active_users > 0 else 0
  )
  \<close>
\<close>

definition total_streams :: "table \<Rightarrow> int" where
  "total_streams fdf = sum_list (map streams fdf)"

definition active_users :: "table \<Rightarrow> int" where
  "active_users fdf = sum_list (map active_listeners fdf)"

definition top_artist :: "table \<Rightarrow> error + string" where
  "top_artist fdf =
     (if fdf \<noteq> [] then idxmax (groupby_sum artist_name streams fdf) else Inr ''N/A'')"

definition premium_listeners :: "table \<Rightarrow> int" where
  "premium_listeners fdf =
     sum_list (map active_listeners (filter (\<lambda>r. subscription_type r = Some ''Premium'') fdf))"

definition premium_share :: "table \<Rightarrow> float64" where
  "premium_share fdf =
     (if 0 < active_users fdf
      then mul64 (true_divide (premium_listeners fdf) (active_users fdf)) 100
      else Fin 0)"

record kpis =
  kpi_total_streams :: int
  kpi_active_users :: int
  kpi_top_artist :: string
  kpi_premium_share :: float64

text \<open>The four assignments in sequence; an exception in one of them ends the run.\<close>

definition kpi_cards :: "table \<Rightarrow> error + kpis" where
  "kpi_cards fdf =
     (case top_artist fdf of
        Inl e \<Rightarrow> Inl e
      | Inr a \<Rightarrow> Inr \<lparr>kpi_total_streams = total_streams fdf, kpi_active_users = active_users fdf,
                   kpi_top_artist = a, kpi_premium_share = premium_share fdf\<rparr>)"

subsection \<open>The KPI row of the earlier versions\<close>

text \<open>
  \<^verbatim>\<open>
  k1.metric("Total Streams", f"{df.streams.sum():,}")
  k2.metric("Active Listeners", f"{df.active_listeners.sum():,}")
  k3.metric("Top Artist", df.groupby("artist_name").streams.sum().idxmax())
  k4.metric("Premium Share (%)", round(
      df[df.subscription_type=="Premium"].active_listeners.sum() / df.active_listeners.sum() * 100, 1))
  \<close>
  The same figures, computed without a test on the filtered table.
\<close>

definition k3_top_artist :: "table \<Rightarrow> error + string" where
  "k3_top_artist df = idxmax (groupby_sum artist_name streams df)"

definition k4_premium_share :: "table \<Rightarrow> float64" where
  "k4_premium_share df =
     round1 (mul64 (true_divide (premium_listeners df) (active_users df)) 100)"

text \<open>
  The four lines in sequence. The top-artist line stands before the premium-share line:
  when it raises, the run ends there and the premium share is never computed.
\<close>

definition kpi_row :: "table \<Rightarrow> error + kpis" where
  "kpi_row df =
     (case k3_top_artist df of
        Inl e \<Rightarrow> Inl e
      | Inr a \<Rightarrow> Inr \<lparr>kpi_total_streams = total_streams df, kpi_active_users = active_users df,
                   kpi_top_artist = a, kpi_premium_share = k4_premium_share df\<rparr>)"

subsection \<open>Charts' tables\<close>

text \<open>
  \<^verbatim>\<open>
  genre_region = filtered_df.groupby(["region", "genre"])["streams"].sum().reset_index()
  map_df = df[df.genre == map_genre].groupby(["country", "region"])["streams"].sum().reset_index()
  \<close>
\<close>

definition genre_region :: "table \<Rightarrow> ((string \<times> string) \<times> int) list" where
  "genre_region fdf = groupby_sum (key2 region genre) streams fdf"

definition map_df :: "table \<Rightarrow> string \<Rightarrow> ((string \<times> string) \<times> int) list" where
  "map_df df map_genre =
     groupby_sum (key2 country region) streams (filter (\<lambda>r. genre r = Some map_genre) df)"

subsection \<open>Market signal\<close>

text \<open>
  \<open>series.quantile(q)\<close> for \<open>0 \<le> q \<le> 1\<close> (the script asks for 0.75 and 0.40): linear
  interpolation between the two order statistics around position \<open>q * (n - 1)\<close>; NaN on
  an empty series.
\<close>

definition quantile :: "real list \<Rightarrow> real \<Rightarrow> float64" where
  "quantile xs q =
     (if xs = [] then NaN
      else let s = sort xs;
               pos = q * real (length xs - 1);
               lo = min (nat \<lfloor>pos\<rfloor>) (length xs - 1);
               hi = min (lo + 1) (length xs - 1)
           in Fin (s ! lo + (s ! hi - s ! lo) * (pos - real lo)))"

text \<open>
  \<^verbatim>\<open>
  q75 = map_df.streams.quantile(0.75)
  q40 = map_df.streams.quantile(0.40)

  def classify(x):
      if x >= q75:
          return f"High {map_genre} adoption market"
      elif x >= q40:
          return f"Moderate {map_genre} adoption market"
      else:
          return f"Low {map_genre} adoption market"

  map_df["market_signal"] = map_df.streams.apply(classify)
  \<close>
  \<open>classify\<close> closes over \<open>q75\<close>, \<open>q40\<close> and \<open>map_genre\<close>; they are parameters here.
\<close>

definition classify :: "float64 \<Rightarrow> float64 \<Rightarrow> string \<Rightarrow> real \<Rightarrow> string" where
  "classify q75 q40 map_genre x =
     (if ge64 x q75 then ''High '' @ map_genre @ '' adoption market''
      else if ge64 x q40 then ''Moderate '' @ map_genre @ '' adoption market''
      else ''Low '' @ map_genre @ '' adoption market'')"

definition market_signal :: "('k \<times> int) list \<Rightarrow> string \<Rightarrow> string list" where
  "market_signal mdf map_genre =
     (let vals = map (\<lambda>kv. real_of_int (snd kv)) mdf;
          q75 = quantile vals (75 / 100);
          q40 = quantile vals (40 / 100)
      in map (classify q75 q40 map_genre) vals)"

section \<open>The campaign table\<close>

text \<open>
  \<^verbatim>\<open>marketing_campaigns.csv\<close> has columns that may hold text where a number is
  expected, and the scripts address its columns by name in a loop. The frame is
  therefore modelled with its column names and, per row, the cell under each name. A
  cell is text as read from the file, a number, or the missing marker. A number is a
  cell of a 64-bit integer column (\<open>I64\<close>, a value from \<open>- 2^63\<close> up to \<open>2^63 - 1\<close>,
  which a column gets when the file holds nothing but integers in it) or a float
  (\<open>Num\<close>, an exact real: rounding is not modelled). Arithmetic on an integer column
  stays in 64 bits and wraps around.
\<close>

datatype cell = Txt string | Num real | I64 int | NA

definition wrap64 :: "int \<Rightarrow> int" where
  "wrap64 x = (x + 2 ^ 63) mod 2 ^ 64 - 2 ^ 63"

record frame =
  columns :: "string list"
  rows :: "(string \<Rightarrow> cell) list"

text \<open>\<open>df[c]\<close> reads a column (KeyError when absent); \<open>df[c] = series\<close> replaces or adds it.\<close>

definition getitem :: "frame \<Rightarrow> string \<Rightarrow> error + cell list" where
  "getitem df c =
     (if c \<in> set (columns df) then Inr (map (\<lambda>r. r c) (rows df)) else Inl KeyError)"

definition setitem :: "frame \<Rightarrow> string \<Rightarrow> cell list \<Rightarrow> error + frame" where
  "setitem df c series =
     (if length series \<noteq> length (rows df) then Inl ValueError
      else Inr \<lparr>columns = (if c \<in> set (columns df) then columns df else columns df @ [c]),
                rows = map (\<lambda>(r, v). r(c := v)) (zip (rows df) series)\<rparr>)"

subsection \<open>Numeric coercion\<close>

text \<open>
  \<^verbatim>\<open>
  num_cols = ["users_before", "users_after", "net_user_gain", "user_growth_pct", "premium_growth_pct"]
  for c in num_cols:
      campaign_df[c] = pd.to_numeric(campaign_df[c], errors="coerce")
  \<close>
  The library's parser of one text is the parameter \<open>parse\<close>: \<open>Some v\<close> for a text that
  reads as the number \<open>v\<close>, \<open>None\<close> otherwise. With \<open>errors="coerce"\<close> a text that does
  not parse becomes the missing marker; numbers and missing markers stay. A column is
  read as text when an entry of it is not a number; it has a missing marker afterwards,
  so its numbers are floats.
\<close>

fun coerce :: "(string \<Rightarrow> real option) \<Rightarrow> cell \<Rightarrow> cell" where
  "coerce parse (Txt s) = (case parse s of Some v \<Rightarrow> Num v | None \<Rightarrow> NA)"
| "coerce parse (Num v) = Num v"
| "coerce parse (I64 i) = I64 i"
| "coerce parse NA = NA"

definition to_numeric :: "(string \<Rightarrow> real option) \<Rightarrow> cell list \<Rightarrow> cell list" where
  "to_numeric parse series = map (coerce parse) series"

definition num_cols :: "string list" where
  "num_cols = [''users_before'', ''users_after'', ''net_user_gain'',
               ''user_growth_pct'', ''premium_growth_pct'']"

fun coerce_columns :: "(string \<Rightarrow> real option) \<Rightarrow> string list \<Rightarrow> frame \<Rightarrow> error + frame" where
  "coerce_columns parse [] df = Inr df"
| "coerce_columns parse (c # cs) df =
     (case getitem df c of
        Inl e \<Rightarrow> Inl e
      | Inr series \<Rightarrow>
          (case setitem df c (to_numeric parse series) of
             Inl e \<Rightarrow> Inl e
           | Inr df' \<Rightarrow> coerce_columns parse cs df'))"

subsection \<open>Dropping incomplete rows and the size column\<close>

text \<open>
  \<^verbatim>\<open>
  campaign_df = campaign_df.dropna(subset=["user_growth_pct", "premium_growth_pct", "net_user_gain"])
  campaign_df["abs_user_gain"] = campaign_df["net_user_gain"].abs() + 10
  \<close>
  \<open>abs\<close> and \<open>+\<close> keep a missing marker and raise TypeError on text. On a cell of an
  integer column both results are wrapped to 64 bits.
\<close>

definition dropna :: "frame \<Rightarrow> string list \<Rightarrow> error + frame" where
  "dropna df required =
     (if set required \<subseteq> set (columns df)
      then Inr (df\<lparr>rows := filter (\<lambda>r. list_all (\<lambda>c. r c \<noteq> NA) required) (rows df)\<rparr>)
      else Inl KeyError)"

fun traverse :: "('a \<Rightarrow> error + 'b) \<Rightarrow> 'a list \<Rightarrow> error + 'b list" where
  "traverse f [] = Inr []"
| "traverse f (x # xs) =
     (case f x of
        Inl e \<Rightarrow> Inl e
      | Inr y \<Rightarrow> (case traverse f xs of Inl e \<Rightarrow> Inl e | Inr ys \<Rightarrow> Inr (y # ys)))"

fun abs_cell :: "cell \<Rightarrow> error + cell" where
  "abs_cell (Num v) = Inr (Num \<bar>v\<bar>)"
| "abs_cell (I64 i) = Inr (I64 (wrap64 \<bar>i\<bar>))"
| "abs_cell NA = Inr NA"
| "abs_cell (Txt s) = Inl TypeError"

fun add_cell :: "int \<Rightarrow> cell \<Rightarrow> error + cell" where
  "add_cell k (Num v) = Inr (Num (v + real_of_int k))"
| "add_cell k (I64 i) = Inr (I64 (wrap64 (i + k)))"
| "add_cell k NA = Inr NA"
| "add_cell k (Txt s) = Inl TypeError"

definition abs_user_gain :: "cell list \<Rightarrow> error + cell list" where
  "abs_user_gain net_user_gain =
     (case traverse abs_cell net_user_gain of
        Inl e \<Rightarrow> Inl e
      | Inr magnitudes \<Rightarrow> traverse (add_cell 10) magnitudes)"

definition add_abs_user_gain :: "frame \<Rightarrow> error + frame" where
  "add_abs_user_gain df =
     (case getitem df ''net_user_gain'' of
        Inl e \<Rightarrow> Inl e
      | Inr series \<Rightarrow>
          (case abs_user_gain series of
             Inl e \<Rightarrow> Inl e
           | Inr sizes \<Rightarrow> setitem df ''abs_user_gain'' sizes))"

text \<open>The three steps in the order of the script.\<close>

definition prepare_campaigns :: "(string \<Rightarrow> real option) \<Rightarrow> frame \<Rightarrow> error + frame" where
  "prepare_campaigns parse df =
     (case coerce_columns parse num_cols df of
        Inl e \<Rightarrow> Inl e
      | Inr df1 \<Rightarrow>
          (case dropna df1 [''user_growth_pct'', ''premium_growth_pct'', ''net_user_gain''] of
             Inl e \<Rightarrow> Inl e
           | Inr df2 \<Rightarrow> add_abs_user_gain df2))"

section \<open>The script's dataframes as objects\<close>

text \<open>
  To say that a statement leaves a dataframe alone, the dataframes live in a store,
  addressed by position, and the script's variables hold addresses. Indexing a
  dataframe by a boolean mask builds a new dataframe: \<open>filtered_df = df[...]\<close> allocates
  the result and binds the variable to its address.
\<close>

record script_state =
  store :: "table list"
  var_df :: nat
  var_filtered_df :: "nat option"

definition assign_filtered_df :: "script_state \<Rightarrow> string option list \<Rightarrow> string option list \<Rightarrow>
    string option list \<Rightarrow> string option list \<Rightarrow> script_state" where
  "assign_filtered_df s region_sel genre_sel subscription_sel month_sel =
     s\<lparr>store := store s @
          [filtered_df (store s ! var_df s) region_sel genre_sel subscription_sel month_sel],
       var_filtered_df := Some (length (store s))\<rparr>"

section \<open>Example data\<close>

text \<open>Three rows of a streaming table, the last one without an artist name.\<close>

definition pop_us :: row where
  "pop_us = \<lparr>region = Some ''US'', genre = Some ''Pop'', subscription_type = Some ''Premium'',
     month = Some ''Jan'', artist_name = Some ''Ava'', country = Some ''United States'',
     streams = 100, active_listeners = 40\<rparr>"

definition rock_us :: row where
  "rock_us = \<lparr>region = Some ''US'', genre = Some ''Rock'', subscription_type = Some ''Free'',
     month = Some ''Feb'', artist_name = Some ''Ben'', country = Some ''United States'',
     streams = 50, active_listeners = 60\<rparr>"

definition jazz_eu :: row where
  "jazz_eu = \<lparr>region = Some ''EU'', genre = Some ''Jazz'', subscription_type = Some ''Free'',
     month = Some ''Feb'', artist_name = None, country = Some ''France'',
     streams = 70, active_listeners = 5\<rparr>"

text \<open>A row whose artist had no active listener in the month.\<close>

definition idle_us :: row where
  "idle_us = \<lparr>region = Some ''US'', genre = Some ''Folk'', subscription_type = Some ''Free'',
     month = Some ''Mar'', artist_name = Some ''Cy'', country = Some ''United States'',
     streams = 0, active_listeners = 0\<rparr>"

text \<open>
  A campaign table as read from a file with one bad entry in \<open>net_user_gain\<close>, and a
  parser that reads the three number texts occurring in it.
\<close>

definition ex_parse :: "string \<Rightarrow> real option" where
  "ex_parse s = (if s = ''-5'' then Some (-5) else if s = ''20'' then Some 20
                 else if s = ''1.5'' then Some (3 / 2) else None)"

definition ex_campaigns :: frame where
  "ex_campaigns =
     \<lparr>columns = [''campaign_name'', ''users_before'', ''users_after'', ''net_user_gain'',
                 ''user_growth_pct'', ''premium_growth_pct''],
      rows = [(\<lambda>c. if c = ''campaign_name'' then Txt ''Summer'' else
                    if c = ''net_user_gain'' then Txt ''-5'' else Txt ''1.5''),
              (\<lambda>c. if c = ''campaign_name'' then Txt ''Winter'' else
                    if c = ''net_user_gain'' then Txt ''20'' else Num 20),
              (\<lambda>c. if c = ''campaign_name'' then Txt ''Spring'' else
                    if c = ''net_user_gain'' then Txt ''n/a'' else Txt ''20'')]\<rparr>"

text \<open>
  A campaign table whose file holds only integers in \<open>net_user_gain\<close>, the first of them
  the least 64-bit integer; the other numeric columns are floats.
\<close>

definition ex_int_campaigns :: frame where
  "ex_int_campaigns =
     \<lparr>columns = [''campaign_name'', ''users_before'', ''users_after'', ''net_user_gain'',
                 ''user_growth_pct'', ''premium_growth_pct''],
      rows = [(\<lambda>c. if c = ''campaign_name'' then Txt ''Summer'' else
                    if c = ''net_user_gain'' then I64 (- 9223372036854775808) else
                    if c = ''users_before'' \<or> c = ''users_after'' then I64 1000 else Num (3 / 2)),
              (\<lambda>c. if c = ''campaign_name'' then Txt ''Winter'' else
                    if c = ''net_user_gain'' then I64 20 else
                    if c = ''users_before'' \<or> c = ''users_after'' then I64 500 else Num 2)]\<rparr>"

section \<open>Properties of the filter\<close>

lemmas ex_defs = pop_us_def rock_us_def jazz_eu_def

lemma filtered_df_subseq:
  "subseq (filtered_df df rs gs ss ms) df"
  by (simp add: filtered_df_def)

lemma filtered_df_all:
  assumes "\<forall>r \<in> set df. row_mask rs gs ss ms r"
  shows "filtered_df df rs gs ss ms = df"
  using assms by (simp add: filtered_df_def)

lemma set_unique: "set (unique col df) = col ` set df"
  by (simp add: unique_def)

text \<open>The widgets' default selection, every value of each column, keeps every row.\<close>

lemma filtered_df_default:
  "filtered_df df (unique region df) (unique genre df) (unique subscription_type df)
     (unique month df) = df"
  by (rule filtered_df_all) (simp add: row_mask_def isin_def set_unique)

text \<open>
  C3. The filtered table is a subset of the rows of the source table (it is even a
  subsequence: order and multiplicity are kept); every row of it has its region, genre,
  subscription type and month in the respective selection; and when each selection
  contains every value of its column that occurs in the table, the table is returned
  unchanged.
\<close>

theorem filtered_df_sound:
  "set (filtered_df df rs gs ss ms) \<subseteq> set df \<and>
   subseq (filtered_df df rs gs ss ms) df \<and>
   (\<forall>r \<in> set (filtered_df df rs gs ss ms).
      region r \<in> set rs \<and> genre r \<in> set gs \<and>
      subscription_type r \<in> set ss \<and> month r \<in> set ms) \<and>
   (region ` set df \<subseteq> set rs \<and> genre ` set df \<subseteq> set gs \<and>
    subscription_type ` set df \<subseteq> set ss \<and> month ` set df \<subseteq> set ms
      \<longrightarrow> filtered_df df rs gs ss ms = df)"
proof (intro conjI impI)
  show "set (filtered_df df rs gs ss ms) \<subseteq> set df"
    by (simp add: filtered_df_def)
  show "subseq (filtered_df df rs gs ss ms) df"
    by (rule filtered_df_subseq)
  show "\<forall>r \<in> set (filtered_df df rs gs ss ms).
      region r \<in> set rs \<and> genre r \<in> set gs \<and>
      subscription_type r \<in> set ss \<and> month r \<in> set ms"
    by (simp add: filtered_df_def row_mask_def isin_def)
next
  assume all: "region ` set df \<subseteq> set rs \<and> genre ` set df \<subseteq> set gs \<and>
    subscription_type ` set df \<subseteq> set ss \<and> month ` set df \<subseteq> set ms"
  then have "\<forall>r \<in> set df. row_mask rs gs ss ms r"
    by (auto simp: row_mask_def isin_def)
  then show "filtered_df df rs gs ss ms = df"
    by (rule filtered_df_all)
qed

theorem filtered_df_sound_witness:
  "filtered_df [pop_us, rock_us, jazz_eu] [Some ''US'']
       [Some ''Pop'', Some ''Rock'', Some ''Jazz'']
       [Some ''Premium'', Some ''Free''] [Some ''Feb''] = [rock_us] \<and>
   set [rock_us] \<subseteq> set [pop_us, rock_us, jazz_eu] \<and>
   region rock_us \<in> set [Some ''US''] \<and>
   filtered_df [pop_us, rock_us, jazz_eu] [Some ''US'', Some ''EU'']
       [Some ''Pop'', Some ''Rock'', Some ''Jazz'']
       [Some ''Premium'', Some ''Free''] [Some ''Jan'', Some ''Feb''] = [pop_us, rock_us, jazz_eu]"
  using filtered_df_sound [of "[pop_us, rock_us, jazz_eu]" "[Some ''US'']"
      "[Some ''Pop'', Some ''Rock'', Some ''Jazz'']" "[Some ''Premium'', Some ''Free'']"
      "[Some ''Feb'']"]
    filtered_df_sound [of "[pop_us, rock_us, jazz_eu]" "[Some ''US'', Some ''EU'']"
      "[Some ''Pop'', Some ''Rock'', Some ''Jazz'']" "[Some ''Premium'', Some ''Free'']"
      "[Some ''Jan'', Some ''Feb'']"]
  by (simp add: filtered_df_def row_mask_def isin_def ex_defs)

text \<open>
  C8. Filtering the filtered table again with the same selections changes nothing.
\<close>

theorem filtered_df_idem:
  "filtered_df (filtered_df df rs gs ss ms) rs gs ss ms = filtered_df df rs gs ss ms"
  by (simp add: filtered_df_def)

text \<open>
  C9. The statement \<open>filtered_df = df[...]\<close> leaves the source table as it was: the
  variable \<open>df\<close> still holds the same address, the table at that address and at every
  other address already in use is unchanged, and the filtered table is a new object at
  a different address.
\<close>

theorem assign_filtered_df_frame:
  assumes "var_df s < length (store s)"
  shows "var_df (assign_filtered_df s rs gs ss ms) = var_df s \<and>
         store (assign_filtered_df s rs gs ss ms) ! var_df s = store s ! var_df s \<and>
         (\<forall>a < length (store s). store (assign_filtered_df s rs gs ss ms) ! a = store s ! a) \<and>
         var_filtered_df (assign_filtered_df s rs gs ss ms) = Some (length (store s)) \<and>
         length (store s) \<noteq> var_df s \<and>
         store (assign_filtered_df s rs gs ss ms) ! length (store s) =
           filtered_df (store s ! var_df s) rs gs ss ms"
  using assms by (simp add: assign_filtered_df_def nth_append)

theorem assign_filtered_df_frame_witness:
  "store (assign_filtered_df \<lparr>store = [[pop_us, rock_us]], var_df = 0, var_filtered_df = None\<rparr>
            [Some ''US''] [Some ''Rock''] [Some ''Free''] [Some ''Feb'']) ! 0 = [pop_us, rock_us] \<and>
   store (assign_filtered_df \<lparr>store = [[pop_us, rock_us]], var_df = 0, var_filtered_df = None\<rparr>
            [Some ''US''] [Some ''Rock''] [Some ''Free''] [Some ''Feb'']) ! 1 = [rock_us]"
  using assign_filtered_df_frame
    [of "\<lparr>store = [[pop_us, rock_us]], var_df = 0, var_filtered_df = None\<rparr>"
      "[Some ''US'']" "[Some ''Rock'']" "[Some ''Free'']" "[Some ''Feb'']"]
  by (simp add: filtered_df_def row_mask_def isin_def ex_defs)

section \<open>Grouped sums\<close>

lemma group_sums_over_keys:
  fixes col :: "'r \<Rightarrow> 'v::comm_monoid_add"
  assumes "finite K"
  shows "(\<Sum>k\<in>K. sum_list (map col (filter (\<lambda>r. key r = Some k) df))) =
         sum_list (map col (filter (\<lambda>r. key r \<in> Some ` K) df))"
proof (induction df)
  case Nil
  show ?case by simp
next
  case (Cons r df)
  show ?case
  proof (cases "key r \<in> Some ` K")
    case False
    then have "\<And>k. k \<in> K \<Longrightarrow> key r \<noteq> Some k" by auto
    then have "(\<Sum>k\<in>K. sum_list (map col (filter (\<lambda>r. key r = Some k) (r # df)))) =
               (\<Sum>k\<in>K. sum_list (map col (filter (\<lambda>r. key r = Some k) df)))"
      by (intro sum.cong) auto
    with False Cons.IH show ?thesis by simp
  next
    case True
    then obtain k0 where k0: "k0 \<in> K" "key r = Some k0" by auto
    have "(\<Sum>k\<in>K. sum_list (map col (filter (\<lambda>r. key r = Some k) (r # df)))) =
          (\<Sum>k\<in>K. (if k = k0 then col r else 0) +
                    sum_list (map col (filter (\<lambda>r. key r = Some k) df)))"
      using k0 by (intro sum.cong) auto
    also have "\<dots> = (\<Sum>k\<in>K. if k = k0 then col r else 0) +
                     (\<Sum>k\<in>K. sum_list (map col (filter (\<lambda>r. key r = Some k) df)))"
      by (rule sum.distrib)
    also have "(\<Sum>k\<in>K. if k = k0 then col r else 0) = col r"
      using assms k0 by simp
    finally show ?thesis using True Cons.IH by simp
  qed
qed

lemma keyed_rows:
  "filter (\<lambda>r. key r \<in> Some ` set (List.map_filter key df)) df = filter (\<lambda>r. key r \<noteq> None) df"
  by (rule filter_cong) (auto simp: List.map_filter_def image_iff)

lemma groupby_sum_sum:
  fixes col :: "'r \<Rightarrow> 'v::comm_monoid_add"
  shows "sum_list (map snd (groupby_sum key col df)) =
         sum_list (map col (filter (\<lambda>r. key r \<noteq> None) df))"
proof -
  let ?ks = "sort (remdups (List.map_filter key df))"
  let ?g = "\<lambda>k. sum_list (map col (filter (\<lambda>r. key r = Some k) df))"
  have "sum_list (map snd (groupby_sum key col df)) = sum_list (map ?g ?ks)"
    by (simp add: groupby_sum_def comp_def)
  also have "\<dots> = sum ?g (set ?ks)"
    by (rule sum_list_distinct_conv_sum_set) simp
  also have "\<dots> = sum ?g (set (List.map_filter key df))"
    by simp
  also have "\<dots> = sum_list (map col (filter (\<lambda>r. key r \<in> Some ` set (List.map_filter key df)) df))"
    by (rule group_sums_over_keys) simp
  finally show ?thesis by (simp only: keyed_rows)
qed

lemma key2_None: "key2 c1 c2 r \<noteq> None \<longleftrightarrow> c1 r \<noteq> None \<and> c2 r \<noteq> None"
  by (simp add: key2_def split: option.splits)

text \<open>
  C4. The sums of a grouped aggregation add up to the sum of the value column over the
  rows that belong to some group, which are the rows with no missing cell in a key
  column. This holds for any key and any value column with a commutative addition (so
  exactly for the integer counts), and in particular for \<open>genre_region\<close> and
  \<open>map_df\<close>.
\<close>

theorem groupby_sum_total:
  fixes col :: "'r \<Rightarrow> 'v::comm_monoid_add"
  shows "sum_list (map snd (groupby_sum key col df)) =
           sum_list (map col (filter (\<lambda>r. key r \<noteq> None) df)) \<and>
         sum_list (map snd (genre_region fdf)) =
           sum_list (map streams (filter (\<lambda>r. region r \<noteq> None \<and> genre r \<noteq> None) fdf)) \<and>
         sum_list (map snd (map_df sdf map_genre)) =
           sum_list (map streams
             (filter (\<lambda>r. genre r = Some map_genre \<and> country r \<noteq> None \<and> region r \<noteq> None) sdf))"
proof (intro conjI)
  show "sum_list (map snd (groupby_sum key col df)) =
        sum_list (map col (filter (\<lambda>r. key r \<noteq> None) df))"
    by (rule groupby_sum_sum)
  show "sum_list (map snd (genre_region fdf)) =
        sum_list (map streams (filter (\<lambda>r. region r \<noteq> None \<and> genre r \<noteq> None) fdf))"
    unfolding genre_region_def groupby_sum_sum key2_None ..
  have "filter (\<lambda>r. country r \<noteq> None \<and> region r \<noteq> None) (filter (\<lambda>r. genre r = Some map_genre) sdf) =
        filter (\<lambda>r. genre r = Some map_genre \<and> country r \<noteq> None \<and> region r \<noteq> None) sdf"
    by (simp add: conj_commute)
  then show "sum_list (map snd (map_df sdf map_genre)) =
        sum_list (map streams
          (filter (\<lambda>r. genre r = Some map_genre \<and> country r \<noteq> None \<and> region r \<noteq> None) sdf))"
    unfolding map_df_def groupby_sum_sum key2_None by simp
qed

theorem groupby_sum_total_witness:
  "genre_region [pop_us, rock_us, jazz_eu, pop_us] =
     [((''EU'', ''Jazz''), 70), ((''US'', ''Pop''), 200), ((''US'', ''Rock''), 50)] \<and>
   groupby_sum artist_name streams [pop_us, rock_us, jazz_eu, pop_us] = [(''Ava'', 200), (''Ben'', 50)] \<and>
   sum_list (map snd (groupby_sum artist_name streams [pop_us, rock_us, jazz_eu, pop_us])) = 250"
  using groupby_sum_total [of artist_name streams "[pop_us, rock_us, jazz_eu, pop_us]" "[]" "[]" "[]"]
  by (simp add: genre_region_def groupby_sum_def key2_def List.map_filter_def ex_defs)

section \<open>The top entity\<close>

lemma first_max_greatest:
  "first_max best kvs \<in> set (best # kvs) \<and>
   (\<forall>kv \<in> set (best # kvs). snd kv \<le> snd (first_max best kvs))"
proof (induction kvs arbitrary: best)
  case Nil
  show ?case by simp
next
  case (Cons kv kvs)
  let ?b = "if snd best < snd kv then kv else best"
  from Cons.IH [of ?b] have "first_max ?b kvs \<in> set (?b # kvs)"
    and "\<forall>x \<in> set (?b # kvs). snd x \<le> snd (first_max ?b kvs)"
    by blast+
  then show ?case by (auto split: if_splits)
qed

text \<open>When \<open>idxmax\<close> returns a label, it is the label of an entry with the greatest value.\<close>

lemma idxmax_greatest:
  assumes "idxmax kvs = Inr k"
  shows "\<exists>v. (k, v) \<in> set kvs \<and> (\<forall>kv \<in> set kvs. snd kv \<le> v)"
proof (cases kvs)
  case Nil
  with assms show ?thesis by simp
next
  case (Cons kv rest)
  with assms have k: "k = fst (first_max kv rest)" by simp
  from first_max_greatest [of kv rest] Cons k
  have "(k, snd (first_max kv rest)) \<in> set kvs"
    and "\<forall>x \<in> set kvs. snd x \<le> snd (first_max kv rest)"
    by simp_all
  then show ?thesis by blast
qed

lemma top_genre_example:
  "idxmax (groupby_sum genre streams (filtered_df [pop_us, rock_us] [Some ''US'']
     [Some ''Pop'', Some ''Rock''] [Some ''Premium'', Some ''Free''] [Some ''Jan'', Some ''Feb'']))
   = Inr ''Pop''"
  by (simp add: groupby_sum_def List.map_filter_def filtered_df_def row_mask_def isin_def ex_defs)

text \<open>
  On an empty filtered table the top-artist query signals no \<open>NoDataError\<close>: the
  version of \<^verbatim>\<open>app.py\<close> returns the text \<open>N/A\<close>, and the earlier versions end with
  the library's ValueError.
\<close>

theorem top_artist_empty_counterexample:
  "top_artist [] = Inr ''N/A'' \<and> top_artist [] \<noteq> Inl NoDataError \<and>
   k3_top_artist [] = Inl ValueError \<and> k3_top_artist [] \<noteq> Inl NoDataError"
  by (simp add: top_artist_def k3_top_artist_def groupby_sum_def List.map_filter_def)

text \<open>
  C1, as the code of \<^verbatim>\<open>app.py\<close> has it: when the filtered table is empty, the
  top-artist query returns the text \<open>N/A\<close> and signals no error at all.
\<close>

theorem top_artist_empty:
  assumes "fdf = []"
  shows "top_artist fdf = Inr ''N/A'' \<and> (\<forall>e. top_artist fdf \<noteq> Inl e)"
  using assms by (simp add: top_artist_def)

theorem top_artist_empty_witness:
  "filtered_df [pop_us, rock_us] [Some ''US''] [] [Some ''Premium'', Some ''Free''] [Some ''Jan''] = [] \<and>
   top_artist (filtered_df [pop_us, rock_us] [Some ''US''] [] [Some ''Premium'', Some ''Free''] [Some ''Jan''])
     = Inr ''N/A''"
  using top_artist_empty
    [of "filtered_df [pop_us, rock_us] [Some ''US''] [] [Some ''Premium'', Some ''Free''] [Some ''Jan'']"]
  by (simp add: filtered_df_def row_mask_def isin_def)

section \<open>The premium share\<close>

text \<open>
  In \<^verbatim>\<open>app.py\<close> the division is behind the test \<open>active_users > 0\<close>: the share is
  always a finite number, and it is 0 when the listener total is 0.
\<close>

lemma true_divide_finite: "b \<noteq> 0 \<Longrightarrow> true_divide a b = Fin (real_of_int a / real_of_int b)"
  by (simp add: true_divide_def)

lemma premium_share_guarded:
  "premium_share fdf \<noteq> NaN \<and> premium_share fdf \<noteq> PInf \<and> premium_share fdf \<noteq> NInf \<and>
   (active_users fdf = 0 \<longrightarrow> premium_share fdf = Fin 0)"
  by (simp add: premium_share_def true_divide_def)

lemma premium_share_example:
  "premium_share [pop_us, rock_us, jazz_eu] = Fin (800 / 21) \<and>
   k4_premium_share [pop_us, rock_us, jazz_eu] = Fin (381 / 10)"
  by (simp add: premium_share_def k4_premium_share_def premium_listeners_def active_users_def
      true_divide_def rint_def ex_defs)

text \<open>
  In the earlier versions an empty filtered table ends the KPI row at the top-artist
  line; the premium share is not computed then.
\<close>

lemma kpi_row_empty: "kpi_row [] = Inl ValueError"
  by (simp add: kpi_row_def k3_top_artist_def groupby_sum_def List.map_filter_def)

text \<open>
  When the top artist is found and no row has a listener, the premium share of the
  earlier versions is NaN.
\<close>

lemma kpi_row_nan:
  assumes "k3_top_artist df = Inr a"
    and "active_users df = 0" and "premium_listeners df = 0"
  shows "kpi_row df = Inr \<lparr>kpi_total_streams = total_streams df, kpi_active_users = 0,
                          kpi_top_artist = a, kpi_premium_share = NaN\<rparr>"
  using assms by (simp add: kpi_row_def k4_premium_share_def true_divide_def)

text \<open>
  C2. The earlier versions divide without a test. On a filtered table that is not empty
  and whose listener total is 0, the KPI row runs through: the top artist is found, the
  quotient of the two sums is 0 / 0, which is NaN, and NaN is the figure handed to the
  metric tile. The guarded ratio of \<^verbatim>\<open>app.py\<close> gives 0 on the same table.
\<close>

theorem kpi_row_zero_listeners:
  "filtered_df [pop_us, idle_us] [Some ''US''] [Some ''Folk''] [Some ''Free''] [Some ''Mar'']
     = [idle_us] \<and>
   active_users [idle_us] = 0 \<and>
   kpi_row [idle_us] =
     Inr \<lparr>kpi_total_streams = 0, kpi_active_users = 0, kpi_top_artist = ''Cy'',
          kpi_premium_share = NaN\<rparr> \<and>
   premium_share [idle_us] = Fin 0"
  by (simp add: filtered_df_def row_mask_def isin_def kpi_row_def k3_top_artist_def
      k4_premium_share_def groupby_sum_def List.map_filter_def total_streams_def
      active_users_def premium_listeners_def premium_share_def true_divide_def
      pop_us_def idle_us_def)

section \<open>The KPI cards on an empty selection\<close>

text \<open>
  C10. In \<^verbatim>\<open>app.py\<close>, whenever the selections leave no row, the four KPI assignments
  run through without an exception: both totals are 0, the top artist is the text
  \<open>N/A\<close>, and the premium share is 0 by the fallback branch of its guard.
\<close>

theorem kpi_cards_empty:
  assumes "filtered_df df rs gs ss ms = []"
  shows "kpi_cards (filtered_df df rs gs ss ms) =
           Inr \<lparr>kpi_total_streams = 0, kpi_active_users = 0, kpi_top_artist = ''N/A'',
                kpi_premium_share = Fin 0\<rparr> \<and>
         top_artist (filtered_df df rs gs ss ms) = Inr ''N/A'' \<and>
         active_users (filtered_df df rs gs ss ms) = 0 \<and>
         premium_share (filtered_df df rs gs ss ms) = Fin 0"
  by (simp add: assms kpi_cards_def top_artist_def total_streams_def active_users_def
      premium_share_def)

theorem kpi_cards_empty_witness:
  "filtered_df [pop_us, rock_us, jazz_eu] [Some ''US'', Some ''EU''] [] [Some ''Free''] [Some ''Feb''] = [] \<and>
   kpi_cards (filtered_df [pop_us, rock_us, jazz_eu] [Some ''US'', Some ''EU''] [] [Some ''Free''] [Some ''Feb'']) =
     Inr \<lparr>kpi_total_streams = 0, kpi_active_users = 0, kpi_top_artist = ''N/A'',
          kpi_premium_share = Fin 0\<rparr>"
  using kpi_cards_empty [of "[pop_us, rock_us, jazz_eu]" "[Some ''US'', Some ''EU'']" "[]"
      "[Some ''Free'']" "[Some ''Feb'']"]
  by (simp add: filtered_df_def row_mask_def isin_def)

section \<open>Market signal\<close>

text \<open>
  C5. With thresholds \<open>q40 \<le> q75\<close>, a value at or above \<open>q75\<close> is labelled High, a
  value from \<open>q40\<close> up to but excluding \<open>q75\<close> Moderate, and a value below \<open>q40\<close>
  Low; a value equal to a threshold falls in the higher bucket. For the values
  10, 20, 30, 40 the thresholds are 32.5 and 22, so 32.5 is High and 22 is Moderate.
\<close>

theorem classify_buckets:
  assumes "q40 \<le> q75"
  shows "(q75 \<le> x \<longrightarrow> classify (Fin q75) (Fin q40) g x = ''High '' @ g @ '' adoption market'') \<and>
         (q40 \<le> x \<and> x < q75 \<longrightarrow>
            classify (Fin q75) (Fin q40) g x = ''Moderate '' @ g @ '' adoption market'') \<and>
         (x < q40 \<longrightarrow> classify (Fin q75) (Fin q40) g x = ''Low '' @ g @ '' adoption market'') \<and>
         quantile [10, 20, 30, 40] (75 / 100) = Fin (65 / 2) \<and>
         quantile [10, 20, 30, 40] (40 / 100) = Fin 22 \<and>
         classify (quantile [10, 20, 30, 40] (75 / 100)) (quantile [10, 20, 30, 40] (40 / 100)) g (65 / 2)
           = ''High '' @ g @ '' adoption market'' \<and>
         classify (quantile [10, 20, 30, 40] (75 / 100)) (quantile [10, 20, 30, 40] (40 / 100)) g 22
           = ''Moderate '' @ g @ '' adoption market''"
proof -
  have q75: "quantile [10, 20, 30, 40] (75 / 100) = Fin (65 / 2)"
    by (simp add: quantile_def)
  have q40: "quantile [10, 20, 30, 40] (40 / 100) = Fin 22"
    by (simp add: quantile_def)
  show ?thesis
    unfolding q75 q40 using assms by (simp add: classify_def)
qed

theorem classify_buckets_witness:
  "(22::real) \<le> 65 / 2 \<and>
   classify (Fin (65 / 2)) (Fin 22) ''Pop'' 40 = ''High Pop adoption market'' \<and>
   classify (Fin (65 / 2)) (Fin 22) ''Pop'' 30 = ''Moderate Pop adoption market'' \<and>
   classify (Fin (65 / 2)) (Fin 22) ''Pop'' 20 = ''Low Pop adoption market''"
  using classify_buckets [of 22 "65 / 2" 40 "''Pop''"] classify_buckets [of 22 "65 / 2" 30 "''Pop''"]
    classify_buckets [of 22 "65 / 2" 20 "''Pop''"]
  by simp

text \<open>The labels of four groups with the sums 10, 20, 30 and 40.\<close>

lemma market_signal_example:
  "market_signal [(''A'', 10), (''B'', 20), (''C'', 30), (''D'', 40)] ''Pop'' =
     [''Low Pop adoption market'', ''Low Pop adoption market'',
      ''Moderate Pop adoption market'', ''High Pop adoption market'']"
  by (simp add: market_signal_def quantile_def classify_def)

section \<open>Numeric coercion\<close>

lemma coerce_idem: "coerce parse (coerce parse c) = coerce parse c"
  by (cases c) (auto split: option.splits)

lemma coerce_not_Txt: "coerce parse c \<noteq> Txt s"
  by (cases c) (auto split: option.splits)

lemma map_zip_update:
  "map (\<lambda>(r, v). r(c := v)) (zip xs (map f xs)) = map (\<lambda>r. r(c := f r)) xs"
  by (induction xs) auto

lemma setitem_to_numeric:
  assumes "c \<in> set (columns df)"
  shows "getitem df c = Inr (map (\<lambda>r. r c) (rows df)) \<and>
         setitem df c (to_numeric parse (map (\<lambda>r. r c) (rows df))) =
           Inr (df\<lparr>rows := map (\<lambda>r. r(c := coerce parse (r c))) (rows df)\<rparr>)"
proof -
  have "map (\<lambda>(r, v). r(c := v)) (zip (rows df) (map (\<lambda>r. coerce parse (r c)) (rows df))) =
        map (\<lambda>r. r(c := coerce parse (r c))) (rows df)"
    by (rule map_zip_update)
  with assms show ?thesis
    by (simp add: getitem_def setitem_def to_numeric_def comp_def)
qed

lemma coerce_columns_result:
  assumes "set cs \<subseteq> set (columns df)"
  shows "coerce_columns parse cs df =
         Inr (df\<lparr>rows := map (\<lambda>r c. if c \<in> set cs then coerce parse (r c) else r c) (rows df)\<rparr>)"
  using assms
proof (induction cs arbitrary: df)
  case Nil
  then show ?case by simp
next
  case (Cons c cs)
  let ?df' = "df\<lparr>rows := map (\<lambda>r. r(c := coerce parse (r c))) (rows df)\<rparr>"
  from Cons.prems have c: "c \<in> set (columns df)" and cs: "set cs \<subseteq> set (columns ?df')"
    by simp_all
  have step: "coerce_columns parse (c # cs) df = coerce_columns parse cs ?df'"
    using setitem_to_numeric [OF c, of parse] by simp
  have "(\<lambda>r c'. if c' \<in> set cs then coerce parse (r c') else r c') \<circ>
          (\<lambda>r. r(c := coerce parse (r c))) =
        (\<lambda>r c'. if c' \<in> set (c # cs) then coerce parse (r c') else r c')"
    by (auto simp: fun_eq_iff coerce_idem)
  then have "map (\<lambda>r c'. if c' \<in> set cs then coerce parse (r c') else r c')
               (map (\<lambda>r. r(c := coerce parse (r c))) (rows df)) =
             map (\<lambda>r c'. if c' \<in> set (c # cs) then coerce parse (r c') else r c') (rows df)"
    by (simp only: map_map)
  then show ?case
    unfolding step Cons.IH [OF cs] by simp
qed

lemma to_numeric_missing:
  "length (filter (\<lambda>c. c = NA) (to_numeric parse (map Txt texts))) =
     length (filter (\<lambda>s. parse s = None) texts) \<and>
   filter (\<lambda>c. c \<noteq> NA) (to_numeric parse (map Txt texts)) =
     map (\<lambda>s. Num (the (parse s))) (filter (\<lambda>s. parse s \<noteq> None) texts)"
  by (induction texts) (auto simp: to_numeric_def split: option.splits)

text \<open>
  C6. When the listed columns exist, the coercion loop ends without an exception and
  keeps every row and every column name. In the listed columns a text that parses
  becomes the parsed number and a text that does not parse becomes the missing marker;
  all other cells stay. A column of texts with exactly one entry that does not parse
  yields exactly one missing marker, and the other entries, in order, as their parsed
  numbers.
\<close>

theorem coerce_columns_total:
  assumes "set cs \<subseteq> set (columns df)"
  shows "(\<exists>df'. coerce_columns parse cs df = Inr df' \<and>
            columns df' = columns df \<and> length (rows df') = length (rows df) \<and>
            rows df' = map (\<lambda>r c. if c \<in> set cs then coerce parse (r c) else r c) (rows df)) \<and>
         (\<forall>s v. parse s = Some v \<longrightarrow> coerce parse (Txt s) = Num v) \<and>
         (\<forall>s. parse s = None \<longrightarrow> coerce parse (Txt s) = NA) \<and>
         (length (filter (\<lambda>s. parse s = None) texts) = 1 \<longrightarrow>
            length (filter (\<lambda>c. c = NA) (to_numeric parse (map Txt texts))) = 1 \<and>
            filter (\<lambda>c. c \<noteq> NA) (to_numeric parse (map Txt texts)) =
              map (\<lambda>s. Num (the (parse s))) (filter (\<lambda>s. parse s \<noteq> None) texts) \<and>
            length (filter (\<lambda>c. c \<noteq> NA) (to_numeric parse (map Txt texts))) = length texts - 1)"
proof (intro conjI allI impI)
  show "\<exists>df'. coerce_columns parse cs df = Inr df' \<and>
            columns df' = columns df \<and> length (rows df') = length (rows df) \<and>
            rows df' = map (\<lambda>r c. if c \<in> set cs then coerce parse (r c) else r c) (rows df)"
    unfolding coerce_columns_result [OF assms] by simp
next
  fix s v assume "parse s = Some v"
  then show "coerce parse (Txt s) = Num v" by simp
next
  fix s assume "parse s = None"
  then show "coerce parse (Txt s) = NA" by simp
next
  assume one: "length (filter (\<lambda>s. parse s = None) texts) = 1"
  show "length (filter (\<lambda>c. c = NA) (to_numeric parse (map Txt texts))) = 1"
    using one to_numeric_missing [of parse texts] by simp
  show valid: "filter (\<lambda>c. c \<noteq> NA) (to_numeric parse (map Txt texts)) =
        map (\<lambda>s. Num (the (parse s))) (filter (\<lambda>s. parse s \<noteq> None) texts)"
    using to_numeric_missing [of parse texts] by simp
  have "length (filter (\<lambda>s. parse s \<noteq> None) texts) + length (filter (\<lambda>s. parse s = None) texts)
          = length texts"
    using sum_length_filter_compl [of "\<lambda>s. parse s \<noteq> None" texts] by simp
  with one show "length (filter (\<lambda>c. c \<noteq> NA) (to_numeric parse (map Txt texts))) = length texts - 1"
    unfolding valid by simp
qed

theorem coerce_columns_total_witness:
  "set num_cols \<subseteq> set (columns ex_campaigns) \<and>
   length (filter (\<lambda>s. ex_parse s = None) [''-5'', ''20'', ''n/a'']) = 1 \<and>
   length (filter (\<lambda>c. c = NA) (to_numeric ex_parse (map Txt [''-5'', ''20'', ''n/a'']))) = 1 \<and>
   (\<exists>df'. coerce_columns ex_parse num_cols ex_campaigns = Inr df' \<and>
      length (rows df') = 3 \<and>
      map (\<lambda>r. r ''net_user_gain'') (rows df') = [Num (-5), Num 20, NA])"
proof -
  have cols: "set num_cols \<subseteq> set (columns ex_campaigns)"
    by (simp add: num_cols_def ex_campaigns_def)
  have one: "length (filter (\<lambda>s. ex_parse s = None) [''-5'', ''20'', ''n/a'']) = 1"
    by (simp add: ex_parse_def)
  note inst = coerce_columns_total [OF cols, of ex_parse "[''-5'', ''20'', ''n/a'']"]
  from inst obtain df' where df': "coerce_columns ex_parse num_cols ex_campaigns = Inr df'"
    and rows': "rows df' = map (\<lambda>r c. if c \<in> set num_cols then coerce ex_parse (r c) else r c)
                   (rows ex_campaigns)"
    by blast
  have len: "length (rows df') = 3"
    unfolding rows' by (simp add: ex_campaigns_def)
  have col: "map (\<lambda>r. r ''net_user_gain'') (rows df') = [Num (-5), Num 20, NA]"
    unfolding rows' by (simp add: ex_campaigns_def num_cols_def ex_parse_def)
  from inst one
  have na: "length (filter (\<lambda>c. c = NA) (to_numeric ex_parse (map Txt [''-5'', ''20'', ''n/a'']))) = 1"
    by blast
  have "\<exists>df'. coerce_columns ex_parse num_cols ex_campaigns = Inr df' \<and>
      length (rows df') = 3 \<and>
      map (\<lambda>r. r ''net_user_gain'') (rows df') = [Num (-5), Num 20, NA]"
    by (rule exI [of _ df']) (simp only: df' len col simp_thms)
  with cols one na show ?thesis
    by (simp only: simp_thms)
qed

section \<open>The size column\<close>

lemma wrap64_id: "- (2 ^ 63) \<le> x \<Longrightarrow> x < 2 ^ 63 \<Longrightarrow> wrap64 x = x"
  by (simp add: wrap64_def)

text \<open>Within the 64-bit range, \<open>abs\<close> and \<open>+ 10\<close> on an integer cell give \<open>\<bar>i\<bar> + 10\<close>.\<close>

lemma int_size_in_range:
  assumes "- (2 ^ 63) < i" and "\<bar>i\<bar> + 10 < 2 ^ 63"
  shows "wrap64 (wrap64 \<bar>i\<bar> + 10) = \<bar>i\<bar> + 10 \<and> 0 < wrap64 (wrap64 \<bar>i\<bar> + 10)"
proof -
  have "wrap64 \<bar>i\<bar> = \<bar>i\<bar>"
    using assms by (intro wrap64_id) linarith+
  moreover have "wrap64 (\<bar>i\<bar> + 10) = \<bar>i\<bar> + 10"
    using assms by (intro wrap64_id) linarith+
  ultimately show ?thesis by simp
qed

lemma abs_user_gain_series:
  assumes "\<forall>c \<in> set series. \<forall>s. c \<noteq> Txt s"
  shows "abs_user_gain series =
         Inr (map (\<lambda>c. case c of Num v \<Rightarrow> Num (\<bar>v\<bar> + 10)
                          | I64 i \<Rightarrow> I64 (wrap64 (wrap64 \<bar>i\<bar> + 10)) | _ \<Rightarrow> NA) series)"
proof -
  have a: "traverse abs_cell series =
           Inr (map (\<lambda>c. case c of Num v \<Rightarrow> Num \<bar>v\<bar> | I64 i \<Rightarrow> I64 (wrap64 \<bar>i\<bar>) | _ \<Rightarrow> NA) series)"
    using assms by (induction series) (auto split: cell.splits)
  have b: "traverse (add_cell 10)
             (map (\<lambda>c. case c of Num v \<Rightarrow> Num \<bar>v\<bar> | I64 i \<Rightarrow> I64 (wrap64 \<bar>i\<bar>) | _ \<Rightarrow> NA) xs) =
           Inr (map (\<lambda>c. case c of Num v \<Rightarrow> Num (\<bar>v\<bar> + 10)
                            | I64 i \<Rightarrow> I64 (wrap64 (wrap64 \<bar>i\<bar> + 10)) | _ \<Rightarrow> NA) xs)" for xs
    by (induction xs) (auto split: cell.splits)
  show ?thesis
    by (simp add: abs_user_gain_def a b)
qed

lemma add_abs_user_gain_result:
  assumes "''net_user_gain'' \<in> set (columns df)"
    and "\<forall>r \<in> set (rows df). \<forall>s. r ''net_user_gain'' \<noteq> Txt s"
  shows "add_abs_user_gain df =
         Inr \<lparr>columns = (if ''abs_user_gain'' \<in> set (columns df) then columns df
                         else columns df @ [''abs_user_gain'']),
              rows = map (\<lambda>r. r(''abs_user_gain'' :=
                (case r ''net_user_gain'' of Num v \<Rightarrow> Num (\<bar>v\<bar> + 10)
                 | I64 i \<Rightarrow> I64 (wrap64 (wrap64 \<bar>i\<bar> + 10)) | _ \<Rightarrow> NA))) (rows df)\<rparr>"
proof -
  let ?size = "\<lambda>c. case c of Num v \<Rightarrow> Num (\<bar>v\<bar> + 10)
                 | I64 i \<Rightarrow> I64 (wrap64 (wrap64 \<bar>i\<bar> + 10)) | _ \<Rightarrow> NA"
  have "abs_user_gain (map (\<lambda>r. r ''net_user_gain'') (rows df)) =
        Inr (map ?size (map (\<lambda>r. r ''net_user_gain'') (rows df)))"
    by (rule abs_user_gain_series) (use assms(2) in auto)
  moreover have "map (\<lambda>(r, v). r(''abs_user_gain'' := v))
          (zip (rows df) (map (\<lambda>r. ?size (r ''net_user_gain'')) (rows df))) =
        map (\<lambda>r. r(''abs_user_gain'' := ?size (r ''net_user_gain''))) (rows df)"
    by (rule map_zip_update)
  ultimately show ?thesis
    using assms(1) by (simp add: add_abs_user_gain_def getitem_def setitem_def comp_def)
qed

text \<open>
  The prepared table, exactly: the rows of the source with the listed columns coerced,
  without those that miss one of the three required numbers, each with its size cell;
  no other row is dropped and none is added.
\<close>

lemma prepare_campaigns_result:
  assumes "set num_cols \<subseteq> set (columns df)"
  shows "prepare_campaigns parse df =
         Inr \<lparr>columns = (if ''abs_user_gain'' \<in> set (columns df) then columns df
                         else columns df @ [''abs_user_gain'']),
              rows = map (\<lambda>r. r(''abs_user_gain'' :=
                  (case r ''net_user_gain'' of Num v \<Rightarrow> Num (\<bar>v\<bar> + 10)
                   | I64 i \<Rightarrow> I64 (wrap64 (wrap64 \<bar>i\<bar> + 10)) | _ \<Rightarrow> NA)))
                (filter (\<lambda>r. list_all (\<lambda>c. r c \<noteq> NA)
                           [''user_growth_pct'', ''premium_growth_pct'', ''net_user_gain''])
                   (map (\<lambda>r c. if c \<in> set num_cols then coerce parse (r c) else r c)
                      (rows df)))\<rparr>"
proof -
  let ?req = "[''user_growth_pct'', ''premium_growth_pct'', ''net_user_gain'']"
  let ?df1 = "df\<lparr>rows := map (\<lambda>r c. if c \<in> set num_cols then coerce parse (r c) else r c) (rows df)\<rparr>"
  let ?df2 = "?df1\<lparr>rows := filter (\<lambda>r. list_all (\<lambda>c. r c \<noteq> NA) ?req) (rows ?df1)\<rparr>"
  have s1: "coerce_columns parse num_cols df = Inr ?df1"
    by (rule coerce_columns_result [OF assms])
  have req: "set ?req \<subseteq> set (columns ?df1)"
    using assms by (simp add: num_cols_def)
  then have s2: "dropna ?df1 ?req = Inr ?df2"
    by (simp add: dropna_def)
  have col: "''net_user_gain'' \<in> set (columns ?df2)"
    using assms by (simp add: num_cols_def)
  have cells: "\<forall>r \<in> set (rows ?df2). \<forall>s. r ''net_user_gain'' \<noteq> Txt s"
  proof (intro ballI allI)
    fix r s assume "r \<in> set (rows ?df2)"
    then obtain r0 where "r ''net_user_gain'' = coerce parse (r0 ''net_user_gain'')"
      by (auto simp: num_cols_def)
    then show "r ''net_user_gain'' \<noteq> Txt s"
      by (simp add: coerce_not_Txt)
  qed
  have "prepare_campaigns parse df = add_abs_user_gain ?df2"
    by (simp only: prepare_campaigns_def s1 s2 sum.case)
  also note add_abs_user_gain_result [OF col cells]
  finally show ?thesis by simp
qed

text \<open>
  Every row of the prepared table has a number as its net user gain. For a float \<open>v\<close>
  the size is \<open>\<bar>v\<bar> + 10\<close>, which is positive; for an integer \<open>i\<close> it is the 64-bit
  result, which is \<open>\<bar>i\<bar> + 10\<close> and positive as long as that sum fits in 64 bits.
\<close>

lemma abs_user_gain_rows:
  assumes "set num_cols \<subseteq> set (columns df)"
    and "prepare_campaigns parse df = Inr df'"
    and "r \<in> set (rows df')"
  shows "(\<exists>v. r ''net_user_gain'' = Num v \<and> r ''abs_user_gain'' = Num (\<bar>v\<bar> + 10) \<and>
              0 < \<bar>v\<bar> + 10) \<or>
         (\<exists>i. r ''net_user_gain'' = I64 i \<and>
              r ''abs_user_gain'' = I64 (wrap64 (wrap64 \<bar>i\<bar> + 10)) \<and>
              (- (2 ^ 63) < i \<and> \<bar>i\<bar> + 10 < 2 ^ 63 \<longrightarrow>
                 wrap64 (wrap64 \<bar>i\<bar> + 10) = \<bar>i\<bar> + 10 \<and> 0 < \<bar>i\<bar> + 10))"
proof -
  from assms(2) have "rows df' = map (\<lambda>r. r(''abs_user_gain'' :=
                  (case r ''net_user_gain'' of Num v \<Rightarrow> Num (\<bar>v\<bar> + 10)
                   | I64 i \<Rightarrow> I64 (wrap64 (wrap64 \<bar>i\<bar> + 10)) | _ \<Rightarrow> NA)))
                (filter (\<lambda>r. list_all (\<lambda>c. r c \<noteq> NA)
                           [''user_growth_pct'', ''premium_growth_pct'', ''net_user_gain''])
                   (map (\<lambda>r c. if c \<in> set num_cols then coerce parse (r c) else r c)
                      (rows df)))"
    unfolding prepare_campaigns_result [OF assms(1)] by auto
  with assms(3) obtain r0 where r: "r = (\<lambda>c. if c \<in> set num_cols then coerce parse (r0 c) else r0 c)
        (''abs_user_gain'' := (case coerce parse (r0 ''net_user_gain'') of Num v \<Rightarrow> Num (\<bar>v\<bar> + 10)
                   | I64 i \<Rightarrow> I64 (wrap64 (wrap64 \<bar>i\<bar> + 10)) | _ \<Rightarrow> NA))"
    and present: "coerce parse (r0 ''net_user_gain'') \<noteq> NA"
    by (auto simp: num_cols_def)
  have gain: "r ''net_user_gain'' = coerce parse (r0 ''net_user_gain'')"
    unfolding r by (simp add: num_cols_def)
  have size: "r ''abs_user_gain'' = (case coerce parse (r0 ''net_user_gain'') of Num v \<Rightarrow> Num (\<bar>v\<bar> + 10)
                   | I64 i \<Rightarrow> I64 (wrap64 (wrap64 \<bar>i\<bar> + 10)) | _ \<Rightarrow> NA)"
    unfolding r by simp
  show ?thesis
  proof (cases "coerce parse (r0 ''net_user_gain'')")
    case (Txt s)
    then show ?thesis using coerce_not_Txt [of parse "r0 ''net_user_gain''" s] by simp
  next
    case (Num v)
    then show ?thesis using gain size by simp
  next
    case (I64 i)
    have "0 < \<bar>i\<bar> + 10" by simp
    with I64 show ?thesis using gain size int_size_in_range [of i] by simp
  next
    case NA
    with present show ?thesis by simp
  qed
qed

text \<open>On the table with the gains -5 and 20 and one bad entry, the sizes are 15 and 30.\<close>

lemma prepare_campaigns_example:
  "\<exists>df'. prepare_campaigns ex_parse ex_campaigns = Inr df' \<and>
     map (\<lambda>r. r ''campaign_name'') (rows df') = [Txt ''Summer'', Txt ''Winter''] \<and>
     map (\<lambda>r. r ''net_user_gain'') (rows df') = [Num (- 5), Num 20] \<and>
     map (\<lambda>r. r ''abs_user_gain'') (rows df') = [Num 15, Num 30]"
proof -
  have cols: "set num_cols \<subseteq> set (columns ex_campaigns)"
    by (simp add: num_cols_def ex_campaigns_def)
  show ?thesis
    unfolding prepare_campaigns_result [OF cols]
    by (simp add: ex_campaigns_def num_cols_def ex_parse_def)
qed

text \<open>
  C7. The size is meant never to be negative. On a table whose \<open>net_user_gain\<close> column
  holds only integers, one of them the least 64-bit integer, the prepared table keeps
  both rows, and the size of that row is not \<open>\<bar>v\<bar> + 10\<close> but the negative number
  -9223372036854775798: \<open>abs\<close> wraps around to the same least integer, and 10 is added
  to it. The other row, with the gain 20, has the size 30.
\<close>

theorem abs_user_gain_int64_min:
  "\<exists>df'. prepare_campaigns ex_parse ex_int_campaigns = Inr df' \<and>
     map (\<lambda>r. r ''net_user_gain'') (rows df') = [I64 (- 9223372036854775808), I64 20] \<and>
     map (\<lambda>r. r ''abs_user_gain'') (rows df') = [I64 (- 9223372036854775798), I64 30]"
proof -
  have cols: "set num_cols \<subseteq> set (columns ex_int_campaigns)"
    by (simp add: num_cols_def ex_int_campaigns_def)
  show ?thesis
    unfolding prepare_campaigns_result [OF cols]
    by (simp add: ex_int_campaigns_def num_cols_def wrap64_def)
qed

end
